theory Spec2Isabelle
  imports Complex_Main "HOL-Library.Multiset"
begin

section \<open>Data model\<close>

text \<open>
  The library passes GPS points around as dictionaries with the keys \<^verbatim>\<open>'x'\<close> (latitude),
  \<^verbatim>\<open>'y'\<close> (longitude) and \<^verbatim>\<open>'comment'\<close>. The functions of \<^verbatim>\<open>analysis\<close> are typed on
  \<^verbatim>\<open>List[Dict[str, float]]\<close> and require the keys \<^verbatim>\<open>'x'\<close> and \<^verbatim>\<open>'y'\<close>;
  \<^verbatim>\<open>preprocessing.clean_data\<close> builds exactly such dictionaries, with float coordinates. A
  point is therefore a record of these three fields (the fields are named \<open>px\<close> and \<open>py\<close>,
  since \<open>x\<close> and \<open>y\<close> would capture the variables of every later statement). On a float,
  \<^verbatim>\<open>float(point['x'])\<close> is the identity; dictionaries without the keys and values that are
  not numbers are excluded by this type.

  Python floats are modelled as real numbers: \<open>+\<close>, \<open>*\<close>, \<open>/\<close>, \<open>sin\<close>, \<open>cos\<close>, \<open>sqrt\<close>
  are the exact functions, and rounding, infinities and NaN are outside the model.
\<close>

record point =
  px :: real
  py :: real
  comment :: string

type_synonym coord = "real \<times> real"

text \<open>The exceptions the analysed functions can raise.\<close>

datatype py_error = ZeroDivisionError | ValueError

section \<open>The functions of Python's \<^verbatim>\<open>math\<close> module that the code calls\<close>

definition radians :: "real \<Rightarrow> real" where
  "radians d = d * pi / 180"


text \<open>\<^verbatim>\<open>math.sqrt\<close> raises \<^verbatim>\<open>ValueError\<close> (math domain error) on a negative argument.\<close>

definition py_sqrt :: "real \<Rightarrow> py_error + real" where
  "py_sqrt v = (if v < 0 then Inl ValueError else Inr (sqrt v))"

text \<open>
  \<^verbatim>\<open>math.atan2(y, x)\<close>: the angle of the vector \<open>(x, y)\<close>, in \<open>(-\<pi>, \<pi>]\<close>, and \<open>0\<close> at the
  origin. It never raises.
\<close>

definition atan2 :: "real \<Rightarrow> real \<Rightarrow> real" where
  "atan2 v u =
     (if 0 < u then arctan (v / u)
      else if u < 0 then (if 0 \<le> v then arctan (v / u) + pi else arctan (v / u) - pi)
      else if 0 < v then pi / 2
      else if v < 0 then - (pi / 2)
      else 0)"

text \<open>
  Python's \<^verbatim>\<open>a / b\<close> raises \<^verbatim>\<open>ZeroDivisionError\<close> when \<open>b\<close> is zero, and \<^verbatim>\<open>a % b\<close> on
  floats with \<open>b > 0\<close> is \<open>a - b * floor (a / b)\<close>. Divisions by a non-zero literal
  (\<^verbatim>\<open>dlat / 2\<close>) are written with \<open>/\<close> directly.
\<close>

definition py_div :: "real \<Rightarrow> real \<Rightarrow> py_error + real" where
  "py_div a b = (if b = 0 then Inl ZeroDivisionError else Inr (a / b))"


text \<open>\<^verbatim>\<open>min\<close> and \<^verbatim>\<open>max\<close> of a list raise \<^verbatim>\<open>ValueError\<close> on the empty list.\<close>

definition py_min :: "real list \<Rightarrow> py_error + real" where
  "py_min vs = (case vs of [] \<Rightarrow> Inl ValueError | v # ws \<Rightarrow> Inr (fold min ws v))"

definition py_max :: "real list \<Rightarrow> py_error + real" where
  "py_max vs = (case vs of [] \<Rightarrow> Inl ValueError | v # ws \<Rightarrow> Inr (fold max ws v))"

section \<open>\<^verbatim>\<open>analysis.haversine_distance\<close>\<close>

text \<open>The intermediate term \<^verbatim>\<open>a\<close> of the source, from the two coordinates in degrees.\<close>

definition haversine_a :: "coord \<Rightarrow> coord \<Rightarrow> real" where
  "haversine_a coord1 coord2 =
     (let lat1 = radians (fst coord1); lon1 = radians (snd coord1);
          lat2 = radians (fst coord2); lon2 = radians (snd coord2);
          dlat = lat2 - lat1;
          dlon = lon2 - lon1
      in (sin (dlat / 2))\<^sup>2 + cos lat1 * cos lat2 * (sin (dlon / 2))\<^sup>2)"

definition haversine_distance :: "coord \<Rightarrow> coord \<Rightarrow> py_error + real" where
  "haversine_distance coord1 coord2 =
     (let R = 6371;
          a = haversine_a coord1 coord2
      in case py_sqrt a of
           Inl e \<Rightarrow> Inl e
         | Inr sa \<Rightarrow>
             (case py_sqrt (1 - a) of
                Inl e \<Rightarrow> Inl e
              | Inr sb \<Rightarrow> Inr (R * (2 * atan2 sa sb))))"

section \<open>\<^verbatim>\<open>analysis.summarize_data\<close>\<close>

record bounding_box =
  min_lat :: real
  max_lat :: real
  min_lon :: real
  max_lon :: real

record summary =
  total_points :: nat
  average_latitude :: real
  average_longitude :: real
  bounding_box :: bounding_box

definition summarize_data :: "point list \<Rightarrow> py_error + summary" where
  "summarize_data data =
     (let n = length data in
      case py_div (sum_list (map px data)) (real n) of
        Inl e \<Rightarrow> Inl e
      | Inr avg_lat \<Rightarrow>
      case py_div (sum_list (map py data)) (real n) of
        Inl e \<Rightarrow> Inl e
      | Inr avg_lon \<Rightarrow>
      let latitudes = map px data;
          longitudes = map py data
      in
      case py_min latitudes of Inl e \<Rightarrow> Inl e | Inr lat_lo \<Rightarrow>
      case py_max latitudes of Inl e \<Rightarrow> Inl e | Inr lat_hi \<Rightarrow>
      case py_min longitudes of Inl e \<Rightarrow> Inl e | Inr lon_lo \<Rightarrow>
      case py_max longitudes of Inl e \<Rightarrow> Inl e | Inr lon_hi \<Rightarrow>
        Inr \<lparr>total_points = n,
             average_latitude = avg_lat,
             average_longitude = avg_lon,
             bounding_box =
               \<lparr>min_lat = lat_lo, max_lat = lat_hi, min_lon = lon_lo, max_lon = lon_hi\<rparr>\<rparr>)"

section \<open>\<^verbatim>\<open>utils.calculate_bearing\<close>\<close>



section \<open>\<^verbatim>\<open>analysis.calculate_distances\<close>\<close>






section \<open>\<^verbatim>\<open>analysis.find_clusters\<close>\<close>




section \<open>Auxiliary definitions for the proofs\<close>








section \<open>Great-circle distance\<close>

text \<open>
  The product of the two latitude cosines, through the half sum and the half difference
  of the latitudes. It turns the term \<^verbatim>\<open>a\<close> into a weighted mean of two squares.
\<close>

lemma cos_mult_half_angles:
  fixes a b :: real
  shows "cos a * cos b = (cos ((a + b) / 2))\<^sup>2 - (sin ((b - a) / 2))\<^sup>2"
proof -
  define p where "p = (a + b) / 2"
  define q where "q = (b - a) / 2"
  have a: "a = p - q" and b: "b = p + q"
    by (simp_all add: p_def q_def field_simps)
  have "cos a * cos b = (cos p * cos q + sin p * sin q) * (cos p * cos q - sin p * sin q)"
    by (simp add: a b cos_add cos_diff)
  also have "\<dots> = (cos p)\<^sup>2 * (cos q)\<^sup>2 - (sin p)\<^sup>2 * (sin q)\<^sup>2"
    by (simp add: algebra_simps power2_eq_square)
  also have "\<dots> = (cos p)\<^sup>2 * (1 - (sin q)\<^sup>2) - (1 - (cos p)\<^sup>2) * (sin q)\<^sup>2"
    by (simp only: cos_squared_eq [of q] sin_squared_eq [of p])
  also have "\<dots> = (cos p)\<^sup>2 - (sin q)\<^sup>2"
    by (simp add: algebra_simps)
  finally show ?thesis by (simp add: p_def q_def)
qed

lemma convex_unit_interval:
  fixes s t u :: real
  assumes "0 \<le> s" "s \<le> 1" "0 \<le> t" "t \<le> 1" "0 \<le> u" "u \<le> 1"
  shows "0 \<le> (1 - u) * s + u * t" and "(1 - u) * s + u * t \<le> 1"
proof -
  show "0 \<le> (1 - u) * s + u * t" using assms by simp
  have "(1 - u) * s \<le> (1 - u) * 1" using assms by (intro mult_left_mono) auto
  moreover have "u * t \<le> u * 1" using assms by (intro mult_left_mono) auto
  ultimately show "(1 - u) * s + u * t \<le> 1" by simp
qed

lemma sin_cos_squared_unit:
  fixes t :: real
  shows "0 \<le> (sin t)\<^sup>2" "(sin t)\<^sup>2 \<le> 1" "0 \<le> (cos t)\<^sup>2" "(cos t)\<^sup>2 \<le> 1"
  by (simp_all add: abs_square_le_1)

lemma haversine_a_convex:
  "haversine_a coord1 coord2 =
     (let lat1 = radians (fst coord1); lat2 = radians (fst coord2);
          u = (sin ((radians (snd coord2) - radians (snd coord1)) / 2))\<^sup>2
      in (1 - u) * (sin ((lat2 - lat1) / 2))\<^sup>2 + u * (cos ((lat1 + lat2) / 2))\<^sup>2)"
  by (simp add: haversine_a_def Let_def cos_mult_half_angles algebra_simps)

lemma haversine_a_bounds:
  "0 \<le> haversine_a coord1 coord2" "haversine_a coord1 coord2 \<le> 1"
  unfolding haversine_a_convex Let_def
  by (rule convex_unit_interval sin_cos_squared_unit)+


lemma haversine_a_sym: "haversine_a coord1 coord2 = haversine_a coord2 coord1"
proof -
  have "(sin ((u - v) / 2))\<^sup>2 = (sin ((v - u) / 2))\<^sup>2" for u v :: real
  proof -
    have "(u - v) / 2 = - ((v - u) / 2)" by argo
    then show ?thesis by (simp only: sin_minus power2_minus)
  qed
  then show ?thesis by (simp add: haversine_a_def Let_def mult.commute)
qed





text \<open>
  In exact arithmetic \<^verbatim>\<open>haversine_distance\<close> has no error case: for all coordinates, also
  latitudes outside \<open>[-90, 90]\<close> where the product of the cosines is negative, the term
  \<^verbatim>\<open>a\<close> satisfies \<open>0 \<le> a\<close> and \<open>0 \<le> 1 - a\<close>, so neither \<^verbatim>\<open>sqrt\<close> raises. This is a fact
  about the real-valued formula only: the bound \<open>a \<le> 1\<close> is attained (antipodal points),
  and the rounding of the floating-point evaluation of \<^verbatim>\<open>a\<close> is not part of this model.
\<close>

lemma haversine_distance_exact_no_error:
  "0 \<le> haversine_a coord1 coord2 \<and> 0 \<le> 1 - haversine_a coord1 coord2 \<and>
   (\<exists>d. haversine_distance coord1 coord2 = Inr d)"
  using haversine_a_bounds [of coord1 coord2]
  by (simp add: haversine_distance_def py_sqrt_def Let_def)

lemma haversine_distance_antipodal:
  "haversine_a (90, 0) (- 90, 0) = 1 \<and> haversine_distance (90, 0) (- 90, 0) = Inr (6371 * pi)"
  by (simp add: haversine_distance_def haversine_a_def py_sqrt_def radians_def atan2_def)

text \<open>
  C6. \<^verbatim>\<open>haversine_distance\<close> is symmetric: swapping the two coordinates changes neither
  the outcome nor the value.
\<close>

theorem haversine_distance_symmetric:
  "haversine_distance coord1 coord2 = haversine_distance coord2 coord1"
  by (simp add: haversine_distance_def haversine_a_sym [of coord1 coord2])

theorem haversine_distance_symmetric_witness:
  "haversine_distance (0, 180) (0, 0) = Inr (6371 * pi) \<and>
   haversine_distance (0, 0) (0, 180) = Inr (6371 * pi)"
  using haversine_distance_symmetric [of "(0, 180)" "(0, 0)"]
  by (simp add: haversine_distance_def haversine_a_def py_sqrt_def radians_def atan2_def)

section \<open>Evaluating the distance on the equator\<close>








section \<open>Initial bearing\<close>







section \<open>Dataset summary\<close>

text \<open>
  C1 (counterexample). On the empty dataset \<^verbatim>\<open>summarize_data\<close> does fail, but the failure is
  the \<^verbatim>\<open>ZeroDivisionError\<close> of the division \<^verbatim>\<open>sum(...) / total_points\<close> itself: no guard
  precedes the division and no dedicated empty-input error exists.
\<close>

theorem summarize_data_empty_division_error:
  "summarize_data [] = Inl ZeroDivisionError"
  by (simp add: summarize_data_def py_div_def)

text \<open>
  C1 (amended). Whenever the point count is zero, \<^verbatim>\<open>summarize_data\<close> fails with the
  \<^verbatim>\<open>ZeroDivisionError\<close> raised by the first division by the point count, before any mean,
  minimum or maximum is produced.
\<close>

theorem summarize_data_no_points:
  "length data = 0 \<Longrightarrow> summarize_data data = Inl ZeroDivisionError"
  by (simp add: summarize_data_def py_div_def)

theorem summarize_data_no_points_witness:
  "length ([] :: point list) = 0 \<and> summarize_data [] = Inl ZeroDivisionError"
  using summarize_data_no_points [of "[]"] by simp


lemma py_min_Min: "vs \<noteq> [] \<Longrightarrow> py_min vs = Inr (Min (set vs))"
proof (cases vs)
  case (Cons v ws)
  then show ?thesis by (simp only: py_min_def list.case Min.set_eq_fold)
qed simp

lemma py_max_Max: "vs \<noteq> [] \<Longrightarrow> py_max vs = Inr (Max (set vs))"
proof (cases vs)
  case (Cons v ws)
  then show ?thesis by (simp only: py_max_def list.case Max.set_eq_fold)
qed simp

text \<open>
  C7. On a non-empty dataset \<^verbatim>\<open>summarize_data\<close> returns the number of points, the
  arithmetic means of the latitudes and of the longitudes, and the bounding box of the
  least and greatest latitude and longitude. For the dataset of the two points
  \<open>(25, -80, a)\<close> and \<open>(27, -82, b)\<close> this is the count 2, the means 26 and -81, and the box
  from 25 to 27 in latitude and from -82 to -80 in longitude.
\<close>

theorem summarize_data_nonempty:
  "(data \<noteq> [] \<longrightarrow>
      summarize_data data =
        Inr \<lparr>total_points = length data,
             average_latitude = sum_list (map px data) / real (length data),
             average_longitude = sum_list (map py data) / real (length data),
             bounding_box =
               \<lparr>min_lat = Min (px ` set data), max_lat = Max (px ` set data),
                min_lon = Min (py ` set data), max_lon = Max (py ` set data)\<rparr>\<rparr>) \<and>
   summarize_data
     [\<lparr>px = 25, py = - 80, comment = ''a''\<rparr>, \<lparr>px = 27, py = - 82, comment = ''b''\<rparr>] =
     Inr \<lparr>total_points = 2, average_latitude = 26, average_longitude = - 81,
          bounding_box = \<lparr>min_lat = 25, max_lat = 27, min_lon = - 82, max_lon = - 80\<rparr>\<rparr>"
  by (simp add: summarize_data_def Let_def py_div_def py_min_Min py_max_Max)

theorem summarize_data_nonempty_witness:
  "summarize_data
     [\<lparr>px = 26, py = - 81, comment = ''c''\<rparr>, \<lparr>px = 24, py = - 83, comment = ''d''\<rparr>,
      \<lparr>px = 28, py = - 82, comment = ''e''\<rparr>] =
     Inr \<lparr>total_points = 3, average_latitude = 26, average_longitude = - 82,
          bounding_box = \<lparr>min_lat = 24, max_lat = 28, min_lon = - 83, max_lon = - 81\<rparr>\<rparr>"
  using summarize_data_nonempty
    [of "[\<lparr>px = 26, py = - 81, comment = ''c''\<rparr>, \<lparr>px = 24, py = - 83, comment = ''d''\<rparr>,
          \<lparr>px = 28, py = - 82, comment = ''e''\<rparr>]"]
  by simp

section \<open>Pairwise distances\<close>











section \<open>Clustering\<close>





































end
